theory Spec2Isabelle
  imports Main "HOL-Library.Word" "HOL-Library.Multiset"
begin

section \<open>Identifiers\<close>

text \<open>
  \<^verbatim>\<open>primitive.ObjectID\<close> is \<^verbatim>\<open>[12]byte\<close>. \<^verbatim>\<open>ObjectIDFromHex\<close> of the driver refuses
  a string whose length is not 24 and then decodes it with \<^verbatim>\<open>hex.Decode\<close>, which
  reads the digits, \<^verbatim>\<open>a\<close>..\<^verbatim>\<open>f\<close> and \<^verbatim>\<open>A\<close>..\<^verbatim>\<open>F\<close>. On an error it returns
  \<^verbatim>\<open>NilObjectID\<close> with the error. \<^verbatim>\<open>Hex\<close> prints lower-case digits.
\<close>

type_synonym byte = "8 word"

type_synonym ObjectID = "byte list"

definition NilObjectID :: ObjectID where
  "NilObjectID = replicate 12 0"

datatype error = ErrInvalidHex | ErrNoDocuments | ErrStore | ErrSyntax

definition fromHexChar :: "char \<Rightarrow> nat option" where
  "fromHexChar c =
     (let n = (of_char c :: nat) in
      if 48 \<le> n \<and> n \<le> 57 then Some (n - 48)
      else if 97 \<le> n \<and> n \<le> 102 then Some (n - 97 + 10)
      else if 65 \<le> n \<and> n \<le> 70 then Some (n - 65 + 10)
      else None)"

fun hex_Decode :: "string \<Rightarrow> byte list option" where
  "hex_Decode [] = Some []"
| "hex_Decode [c] = None"
| "hex_Decode (a # b # cs) =
     (case fromHexChar a of
        None \<Rightarrow> None
      | Some x \<Rightarrow>
          (case fromHexChar b of
             None \<Rightarrow> None
           | Some y \<Rightarrow>
               (case hex_Decode cs of
                  None \<Rightarrow> None
                | Some bs \<Rightarrow> Some (of_nat (x * 16 + y) # bs))))"

definition ObjectIDFromHex :: "string \<Rightarrow> ObjectID \<times> error option" where
  "ObjectIDFromHex s =
     (if length s \<noteq> 24 then (NilObjectID, Some ErrInvalidHex)
      else (case hex_Decode s of
              None \<Rightarrow> (NilObjectID, Some ErrInvalidHex)
            | Some oid \<Rightarrow> (oid, None)))"

definition hextable :: string where
  "hextable = ''0123456789abcdef''"

fun Hex :: "ObjectID \<Rightarrow> string" where
  "Hex [] = []"
| "Hex (b # bs) = hextable ! (unat b div 16) # hextable ! (unat b mod 16) # Hex bs"

section \<open>Models\<close>

text \<open>
  \<^verbatim>\<open>time.Time\<close> is read as nanoseconds since the epoch. A BSON date holds
  milliseconds: the driver's encoder stores \<^verbatim>\<open>Unix()*1000 + Nanosecond()/1e6\<close>, which
  \<open>bson_time\<close> gives back in nanoseconds.
\<close>

type_synonym time = int

definition bson_time :: "time \<Rightarrow> time" where
  "bson_time t = (t div 1000000) * 1000000"

record Todo =
  ID :: ObjectID
  Title :: string
  Completed :: bool
  CreatedAt :: time

record CreateTodoRequest =
  req_Title :: string

text \<open>The two fields of \<^verbatim>\<open>UpdateTodoRequest\<close> are pointers: \<open>None\<close> is \<^verbatim>\<open>nil\<close>.\<close>

record UpdateTodoRequest =
  upd_Title :: "string option"
  upd_Completed :: "bool option"

text \<open>A Go slice of items: \<open>None\<close> is the \<^verbatim>\<open>nil\<close> slice, \<open>Some []\<close> is \<^verbatim>\<open>[]Todo{}\<close>.\<close>

type_synonym todos = "Todo list option"

section \<open>Serialized values\<close>

text \<open>
  What \<^verbatim>\<open>json.Marshal\<close> writes is kept as the value it encodes: \<open>JSON_todos None\<close> is
  \<^verbatim>\<open>null\<close>, \<open>JSON_todos (Some [])\<close> is \<^verbatim>\<open>[]\<close>, \<open>JSON_todo t\<close> is one object. \<open>Corrupt s\<close>
  stands for bytes \<open>s\<close> that are not JSON at all. \<^verbatim>\<open>json.Unmarshal\<close> into a
  \<^verbatim>\<open>[]Todo\<close> accepts an array or \<^verbatim>\<open>null\<close> and returns an error on an object and on
  anything that is not JSON.
\<close>

datatype bytes = JSON_todos todos | JSON_todo Todo | Corrupt string

definition json_Marshal_todos :: "todos \<Rightarrow> bytes" where
  "json_Marshal_todos ts = JSON_todos ts"

definition json_Marshal_todo :: "Todo \<Rightarrow> bytes" where
  "json_Marshal_todo t = JSON_todo t"

fun json_Unmarshal_todos :: "bytes \<Rightarrow> todos \<times> error option" where
  "json_Unmarshal_todos (JSON_todos ts) = (ts, None)"
| "json_Unmarshal_todos (JSON_todo t) = (None, Some ErrSyntax)"
| "json_Unmarshal_todos (Corrupt s) = (None, Some ErrSyntax)"

fun json_Unmarshal_todo :: "bytes \<Rightarrow> Todo option" where
  "json_Unmarshal_todo (JSON_todo t) = Some t"
| "json_Unmarshal_todo (JSON_todos ts) = None"
| "json_Unmarshal_todo (Corrupt s) = None"

section \<open>The store, the cache and the outside world\<close>

text \<open>
  The collection is the list of its documents, the cache a map from keys to values.
  \<open>env\<close> holds what one request gets from outside: the clock, the identifier
  \<^verbatim>\<open>primitive.NewObjectID()\<close> returns, the identifier the driver gives a document
  inserted without \<^verbatim>\<open>_id\<close>, and which calls to the cache and to the store fail.
  \<open>empty_set_err\<close> says whether the server refuses an update whose \<^verbatim>\<open>$set\<close> is empty.
\<close>

record state =
  Collection :: "Todo list"
  Redis :: "string \<rightharpoonup> bytes"

record env =
  time_Now :: time
  NewObjectID :: ObjectID
  driver_oid :: ObjectID
  redis_get_err :: bool
  redis_set_err :: bool
  redis_del_err :: bool
  mongo_err :: bool
  empty_set_err :: bool

definition Redis_Get :: "env \<Rightarrow> state \<Rightarrow> string \<Rightarrow> bytes option" where
  "Redis_Get e s k = (if redis_get_err e then None else Redis s k)"

definition Redis_Set :: "env \<Rightarrow> string \<Rightarrow> bytes \<Rightarrow> state \<Rightarrow> state" where
  "Redis_Set e k v s = (if redis_set_err e then s else s\<lparr>Redis := (Redis s)(k \<mapsto> v)\<rparr>)"

fun del_keys :: "string list \<Rightarrow> (string \<rightharpoonup> bytes) \<Rightarrow> (string \<rightharpoonup> bytes)" where
  "del_keys [] m = m"
| "del_keys (k # ks) m = del_keys ks (m(k := None))"

definition Redis_Del :: "env \<Rightarrow> string list \<Rightarrow> state \<Rightarrow> state" where
  "Redis_Del e ks s = (if redis_del_err e then s else s\<lparr>Redis := del_keys ks (Redis s)\<rparr>)"

text \<open>\<^verbatim>\<open>Find\<close> with the sort \<^verbatim>\<open>{createdAt: -1}\<close>, then \<^verbatim>\<open>cursor.All\<close>: newest first, and
  the \<^verbatim>\<open>nil\<close> slice when there is no document.\<close>

definition sort_createdAt_desc :: "Todo list \<Rightarrow> Todo list" where
  "sort_createdAt_desc ds = rev (sort_key CreatedAt ds)"

definition Find_All :: "env \<Rightarrow> state \<Rightarrow> todos \<times> error option" where
  "Find_All e s =
     (if mongo_err e then (None, Some ErrStore)
      else if Collection s = [] then (None, None)
      else (Some (sort_createdAt_desc (Collection s)), None))"

definition FindOne :: "env \<Rightarrow> state \<Rightarrow> ObjectID \<Rightarrow> Todo option \<times> error option" where
  "FindOne e s oid =
     (if mongo_err e then (None, Some ErrStore)
      else (case find (\<lambda>d. ID d = oid) (Collection s) of
              None \<Rightarrow> (None, Some ErrNoDocuments)
            | Some d \<Rightarrow> (Some d, None)))"

text \<open>\<^verbatim>\<open>InsertOne\<close>: the tag \<^verbatim>\<open>_id,omitempty\<close> leaves a zero identifier out and the driver
  then makes one; the timestamp is stored as a BSON date; an identifier already in the
  collection is a duplicate key.\<close>

definition bson_doc :: "env \<Rightarrow> Todo \<Rightarrow> Todo" where
  "bson_doc e t =
     t\<lparr>ID := (if ID t = NilObjectID then driver_oid e else ID t),
       CreatedAt := bson_time (CreatedAt t)\<rparr>"

definition InsertOne :: "env \<Rightarrow> Todo \<Rightarrow> state \<Rightarrow> error option \<times> state" where
  "InsertOne e t s =
     (if mongo_err e then (Some ErrStore, s)
      else if ID (bson_doc e t) \<in> set (map ID (Collection s)) then (Some ErrStore, s)
      else (None, s\<lparr>Collection := Collection s @ [bson_doc e t]\<rparr>))"

text \<open>\<^verbatim>\<open>UpdateOne\<close> with \<^verbatim>\<open>{"$set": update}\<close>: the first document with the identifier
  gets the fields the update holds.\<close>

definition apply_set :: "UpdateTodoRequest \<Rightarrow> Todo \<Rightarrow> Todo" where
  "apply_set u d =
     d\<lparr>Title := (case upd_Title u of None \<Rightarrow> Title d | Some t \<Rightarrow> t),
       Completed := (case upd_Completed u of None \<Rightarrow> Completed d | Some c \<Rightarrow> c)\<rparr>"

fun update_first :: "ObjectID \<Rightarrow> UpdateTodoRequest \<Rightarrow> Todo list \<Rightarrow> Todo list" where
  "update_first oid u [] = []"
| "update_first oid u (d # ds) =
     (if ID d = oid then apply_set u d # ds else d # update_first oid u ds)"

definition UpdateOne :: "env \<Rightarrow> ObjectID \<Rightarrow> UpdateTodoRequest \<Rightarrow> state \<Rightarrow> error option \<times> state" where
  "UpdateOne e oid u s =
     (if mongo_err e then (Some ErrStore, s)
      else if upd_Title u = None \<and> upd_Completed u = None \<and> empty_set_err e
        then (Some ErrStore, s)
      else (None, s\<lparr>Collection := update_first oid u (Collection s)\<rparr>))"

fun delete_first :: "ObjectID \<Rightarrow> Todo list \<Rightarrow> Todo list" where
  "delete_first oid [] = []"
| "delete_first oid (d # ds) = (if ID d = oid then ds else d # delete_first oid ds)"

definition DeleteOne :: "env \<Rightarrow> ObjectID \<Rightarrow> state \<Rightarrow> error option \<times> state" where
  "DeleteOne e oid s =
     (if mongo_err e then (Some ErrStore, s)
      else (None, s\<lparr>Collection := delete_first oid (Collection s)\<rparr>))"

section \<open>Requests and responses\<close>

text \<open>
  A request carries what the handlers read from it: the method, the \<^verbatim>\<open>Content-Type\<close>
  header, the \<^verbatim>\<open>{id}\<close> segment of the path, and what parsing its body gives
  (\<open>None\<close> when \<^verbatim>\<open>ParseForm\<close> or the JSON decoder returns an error).
\<close>

record Request =
  Method :: string
  Content_Type :: string
  URLParam_id :: string
  ParseForm :: "(string \<rightharpoonup> string) option"
  Decode_create :: "CreateTodoRequest option"
  Decode_update :: "UpdateTodoRequest option"

definition FormValue :: "(string \<rightharpoonup> string) \<Rightarrow> string \<Rightarrow> string" where
  "FormValue f k = (case f k of None \<Rightarrow> [] | Some v \<Rightarrow> v)"

fun strings_Contains :: "string \<Rightarrow> string \<Rightarrow> bool" where
  "strings_Contains [] sub = (sub = [])"
| "strings_Contains (c # cs) sub =
     (if take (length sub) (c # cs) = sub then True else strings_Contains cs sub)"

text \<open>
  The response writer of \<^verbatim>\<open>net/http\<close>: the first \<^verbatim>\<open>WriteHeader\<close> fixes the status and
  the headers that are sent, a later one is ignored, and a \<^verbatim>\<open>Write\<close> before any
  \<^verbatim>\<open>WriteHeader\<close> sends status 200 first. The body is the sequence of what was written:
  serialized values, literal text, or the rendered page.
\<close>

datatype chunk = Raw bytes | Text string | Page todos

record ResponseWriter =
  Header :: "string \<rightharpoonup> string"
  wroteHeader :: bool
  status :: nat
  sent_Header :: "string \<rightharpoonup> string"
  body :: "chunk list"

definition new_ResponseWriter :: ResponseWriter where
  "new_ResponseWriter =
     \<lparr>Header = Map.empty, wroteHeader = False, status = 200, sent_Header = Map.empty, body = []\<rparr>"

definition Header_Set :: "string \<Rightarrow> string \<Rightarrow> ResponseWriter \<Rightarrow> ResponseWriter" where
  "Header_Set k v w = w\<lparr>Header := (Header w)(k \<mapsto> v)\<rparr>"

definition Header_Del :: "string \<Rightarrow> ResponseWriter \<Rightarrow> ResponseWriter" where
  "Header_Del k w = w\<lparr>Header := (Header w)(k := None)\<rparr>"

definition WriteHeader :: "nat \<Rightarrow> ResponseWriter \<Rightarrow> ResponseWriter" where
  "WriteHeader code w =
     (if wroteHeader w then w
      else w\<lparr>wroteHeader := True, status := code, sent_Header := Header w\<rparr>)"

definition Write :: "chunk \<Rightarrow> ResponseWriter \<Rightarrow> ResponseWriter" where
  "Write c w =
     (let w' = (if wroteHeader w then w else WriteHeader 200 w)
      in w'\<lparr>body := body w' @ [c]\<rparr>)"

definition http_Error :: "string \<Rightarrow> nat \<Rightarrow> ResponseWriter \<Rightarrow> ResponseWriter" where
  "http_Error msg code w =
     Write (Text (msg @ [CHR 0x0A]))
       (WriteHeader code
         (Header_Set ''X-Content-Type-Options'' ''nosniff''
           (Header_Set ''Content-Type'' ''text/plain; charset=utf-8''
             (Header_Del ''Content-Length'' w))))"

text \<open>\<^verbatim>\<open>http.Redirect\<close> sets \<^verbatim>\<open>Location\<close>, writes the status, and writes a body only
  for a \<^verbatim>\<open>GET\<close> with no \<^verbatim>\<open>Content-Type\<close> set before.\<close>

definition http_Redirect :: "Request \<Rightarrow> string \<Rightarrow> nat \<Rightarrow> ResponseWriter \<Rightarrow> ResponseWriter" where
  "http_Redirect r url code w =
     (let hadCT = (Header w ''Content-Type'' \<noteq> None);
          w1 = Header_Set ''Location'' url w;
          w2 = (if \<not> hadCT \<and> (Method r = ''GET'' \<or> Method r = ''HEAD'')
                then Header_Set ''Content-Type'' ''text/html; charset=utf-8'' w1 else w1);
          w3 = WriteHeader code w2
      in if \<not> hadCT \<and> Method r = ''GET''
         then Write (Text (''<a href=\"'' @ url @ ''\">See Other</a>.'' @ [CHR 0x0A, CHR 0x0A])) w3
         else w3)"

text \<open>\<^verbatim>\<open>json.NewEncoder(w).Encode(v)\<close> writes the encoding of \<open>v\<close> and a newline.\<close>

definition Encode_todos :: "todos \<Rightarrow> ResponseWriter \<Rightarrow> ResponseWriter" where
  "Encode_todos ts w = Write (Text [CHR 0x0A]) (Write (Raw (json_Marshal_todos ts)) w)"

definition Encode_todo :: "Todo \<Rightarrow> ResponseWriter \<Rightarrow> ResponseWriter" where
  "Encode_todo t w = Write (Text [CHR 0x0A]) (Write (Raw (json_Marshal_todo t)) w)"

text \<open>What the client receives once the handler has returned.\<close>

definition finish :: "ResponseWriter \<Rightarrow> ResponseWriter" where
  "finish w = (if wroteHeader w then w else WriteHeader 200 w)"

section \<open>Logic helpers\<close>

text \<open>Steps 2 and 3 of \<^verbatim>\<open>getAllTodos\<close>: fetch from the store, cache the result.\<close>

definition getAllTodos_store :: "env \<Rightarrow> state \<Rightarrow> (todos \<times> error option) \<times> state" where
  "getAllTodos_store e s =
     (case Find_All e s of
        (ts, Some err) \<Rightarrow> ((None, Some err), s)
      | (ts, None) \<Rightarrow>
          (let todos = (if ts = None then Some [] else ts);
               data = json_Marshal_todos todos
           in ((todos, None), Redis_Set e ''todos:all'' data s)))"

definition getAllTodos :: "env \<Rightarrow> state \<Rightarrow> (todos \<times> error option) \<times> state" where
  "getAllTodos e s =
     (case Redis_Get e s ''todos:all'' of
        None \<Rightarrow> getAllTodos_store e s
      | Some cached \<Rightarrow>
          (case json_Unmarshal_todos cached of
             (ts, None) \<Rightarrow> ((ts, None), s)
           | (ts, Some err) \<Rightarrow> getAllTodos_store e s))"

section \<open>Handlers\<close>

type_synonym handler = "env \<Rightarrow> Request \<Rightarrow> ResponseWriter \<times> state \<Rightarrow> ResponseWriter \<times> state"

definition handleHealth :: handler where
  "handleHealth e r = (\<lambda>(w, s). (Write (Text ''OK'') (WriteHeader 200 w), s))"

definition handleHome :: handler where
  "handleHome e r = (\<lambda>(w, s).
     (case getAllTodos e s of
        ((ts, Some err), s') \<Rightarrow> (http_Error ''Failed to load todos'' 500 w, s')
      | ((ts, None), s') \<Rightarrow> (Write (Page ts) (Header_Set ''Content-Type'' ''text/html'' w), s')))"

definition listTodos :: handler where
  "listTodos e r = (\<lambda>(w, s).
     (case getAllTodos e s of
        ((ts, Some err), s') \<Rightarrow> (http_Error ''Failed to fetch todos'' 500 w, s')
      | ((ts, None), s') \<Rightarrow>
          (Encode_todos ts (Header_Set ''Content-Type'' ''application/json'' w), s')))"

definition isForm :: "Request \<Rightarrow> bool" where
  "isForm r = strings_Contains (Content_Type r) ''application/x-www-form-urlencoded''"

text \<open>The part of \<^verbatim>\<open>createTodo\<close> from the check of the title on.\<close>

definition createTodo_title :: "string \<Rightarrow> handler" where
  "createTodo_title title e r = (\<lambda>(w, s).
     if title = [] then (http_Error ''Title is required'' 400 w, s)
     else
       (let newTodo = \<lparr>ID = NewObjectID e, Title = title, Completed = False,
                       CreatedAt = time_Now e\<rparr>
        in case InsertOne e newTodo s of
             (Some err, s') \<Rightarrow> (http_Error ''Failed to create todo'' 500 w, s')
           | (None, s') \<Rightarrow>
               (let s'' = Redis_Del e [''todos:all''] s'
                in if isForm r then (http_Redirect r ''/'' 303 w, s'')
                   else (Encode_todo newTodo
                           (WriteHeader 201
                             (Header_Set ''Content-Type'' ''application/json'' w)), s''))))"

definition createTodo :: handler where
  "createTodo e r = (\<lambda>(w, s).
     if isForm r then
       (case ParseForm r of
          None \<Rightarrow> (http_Error ''Invalid form data'' 400 w, s)
        | Some f \<Rightarrow> createTodo_title (FormValue f ''title'') e r (w, s))
     else
       (case Decode_create r of
          None \<Rightarrow> (http_Error ''Invalid request body'' 400 w, s)
        | Some req \<Rightarrow> createTodo_title (req_Title req) e r (w, s)))"

definition getTodo :: handler where
  "getTodo e r = (\<lambda>(w, s).
     (let idStr = URLParam_id r;
          cacheKey = ''todo:'' @ idStr
      in case Redis_Get e s cacheKey of
           Some cached \<Rightarrow>
             (Write (Raw cached) (Header_Set ''Content-Type'' ''application/json'' w), s)
         | None \<Rightarrow>
             (let objID = fst (ObjectIDFromHex idStr)
              in case FindOne e s objID of
                   (Some todo, None) \<Rightarrow>
                     (let data = json_Marshal_todo todo;
                          s' = Redis_Set e cacheKey data s
                      in (Encode_todo todo
                            (Header_Set ''Content-Type'' ''application/json'' w), s'))
                 | _ \<Rightarrow> (http_Error ''Todo not found'' 404 w, s))))"

definition updateTodo :: handler where
  "updateTodo e r = (\<lambda>(w, s).
     (let idStr = URLParam_id r
      in case ObjectIDFromHex idStr of
           (objID, Some err) \<Rightarrow> (http_Error ''Invalid ID'' 400 w, s)
         | (objID, None) \<Rightarrow>
             (case Decode_update r of
                None \<Rightarrow> (http_Error ''Invalid body'' 400 w, s)
              | Some req \<Rightarrow>
                  (case UpdateOne e objID req s of
                     (Some err, s') \<Rightarrow> (http_Error ''Failed to update'' 500 w, s')
                   | (None, s') \<Rightarrow>
                       (let s'' = Redis_Del e [''todos:all'', ''todo:'' @ idStr] s'
                        in (Write (Text ''{\"status\":\"updated\"}'') (WriteHeader 200 w), s''))))))"

definition deleteTodo :: handler where
  "deleteTodo e r = (\<lambda>(w, s).
     (let idStr = URLParam_id r
      in case ObjectIDFromHex idStr of
           (objID, Some err) \<Rightarrow> (http_Error ''Invalid ID'' 400 w, s)
         | (objID, None) \<Rightarrow>
             (case DeleteOne e objID s of
                (Some err, s') \<Rightarrow> (http_Error ''Failed to delete'' 500 w, s')
              | (None, s') \<Rightarrow>
                  (let s'' = Redis_Del e [''todos:all'', ''todo:'' @ idStr] s'
                   in (Write (Text ''{\"status\":\"deleted\"}'') (WriteHeader 200 w), s'')))))"

text \<open>\<^verbatim>\<open>deleteTodoForm\<close> first calls \<^verbatim>\<open>deleteTodo\<close> on the same writer and request, then
  runs the deletion again and redirects.\<close>

definition deleteTodoForm :: handler where
  "deleteTodoForm e r = (\<lambda>(w0, s0).
     (let (w, s) = deleteTodo e r (w0, s0);
          idStr = URLParam_id r
      in case ObjectIDFromHex idStr of
           (objID, Some err) \<Rightarrow> (http_Error ''Invalid ID'' 400 w, s)
         | (objID, None) \<Rightarrow>
             (case DeleteOne e objID s of
                (Some err, s') \<Rightarrow> (http_Error ''Failed to delete'' 500 w, s')
              | (None, s') \<Rightarrow>
                  (let s'' = Redis_Del e [''todos:all'', ''todo:'' @ idStr] s'
                   in (http_Redirect r ''/'' 303 w, s'')))))"

section \<open>Routes\<close>

datatype route =
  GET_health | GET_home | GET_todos | POST_todos
  | GET_todo | PUT_todo | DELETE_todo | POST_todo_delete

fun setupRoutes :: "route \<Rightarrow> handler" where
  "setupRoutes GET_health = handleHealth"
| "setupRoutes GET_home = handleHome"
| "setupRoutes GET_todos = listTodos"
| "setupRoutes POST_todos = createTodo"
| "setupRoutes GET_todo = getTodo"
| "setupRoutes PUT_todo = updateTodo"
| "setupRoutes DELETE_todo = deleteTodo"
| "setupRoutes POST_todo_delete = deleteTodoForm"

text \<open>One request served from a fresh response writer: the response and the new state.\<close>

definition serve :: "route \<Rightarrow> env \<Rightarrow> Request \<Rightarrow> state \<Rightarrow> ResponseWriter \<times> state" where
  "serve rt e r s = (let (w, s') = setupRoutes rt e r (new_ResponseWriter, s) in (finish w, s'))"

section \<open>Notions used in the statements\<close>



text \<open>The identifiers of the stored items are unique, as the index on \<^verbatim>\<open>_id\<close> has it.\<close>

definition unique_ids :: "state \<Rightarrow> bool" where
  "unique_ids s = distinct (map ID (Collection s))"

section \<open>Example inputs\<close>

definition ex_id :: string where
  "ex_id = ''507f1f77bcf86cd799439011''"

definition ex_oid :: ObjectID where
  "ex_oid = [80, 127, 31, 119, 188, 248, 108, 215, 153, 67, 144, 17]"

definition ex_env :: env where
  "ex_env = \<lparr>time_Now = 1700000000123456789, NewObjectID = ex_oid, driver_oid = NilObjectID,
     redis_get_err = False, redis_set_err = False, redis_del_err = False, mongo_err = False,
     empty_set_err = False\<rparr>"

definition ex_req :: "string \<Rightarrow> string \<Rightarrow> Request" where
  "ex_req m i = \<lparr>Method = m, Content_Type = [], URLParam_id = i, ParseForm = None,
     Decode_create = None, Decode_update = None\<rparr>"

definition ex_todo :: Todo where
  "ex_todo = \<lparr>ID = ex_oid, Title = ''buy milk'', Completed = False,
     CreatedAt = 1700000000123000000\<rparr>"

definition empty_state :: state where
  "empty_state = \<lparr>Collection = [], Redis = Map.empty\<rparr>"

text \<open>A store with one item and a cached list that shows it.\<close>

definition ex_state :: state where
  "ex_state = \<lparr>Collection = [ex_todo],
     Redis = [''todos:all'' \<mapsto> JSON_todos (Some [ex_todo])]\<rparr>"

text \<open>The same identifier spelled with upper-case digits.\<close>

definition ex_ID_upper :: string where
  "ex_ID_upper = ''507F1F77BCF86CD799439011''"

definition ex_set_completed :: Request where
  "ex_set_completed = (ex_req ''PUT'' ex_ID_upper)
     \<lparr>Decode_update := Some \<lparr>upd_Title = None, upd_Completed = Some True\<rparr>\<rparr>"

text \<open>A store with one item and an empty cache.\<close>

definition ex_store_only :: state where
  "ex_store_only = \<lparr>Collection = [ex_todo], Redis = Map.empty\<rparr>"

definition ex_json_create :: "string \<Rightarrow> Request" where
  "ex_json_create t = \<lparr>Method = ''POST'', Content_Type = ''application/json'', URLParam_id = [],
     ParseForm = None, Decode_create = Some \<lparr>req_Title = t\<rparr>, Decode_update = None\<rparr>"

definition ex_form_create :: "string \<Rightarrow> Request" where
  "ex_form_create t = \<lparr>Method = ''POST'', Content_Type = ''application/x-www-form-urlencoded'',
     URLParam_id = [], ParseForm = Some [''title'' \<mapsto> t], Decode_create = None,
     Decode_update = None\<rparr>"

text \<open>A cache whose item entry is not JSON.\<close>

definition ex_corrupt_item :: state where
  "ex_corrupt_item = \<lparr>Collection = [ex_todo], Redis = [''todo:'' @ ex_id \<mapsto> Corrupt ''#'']\<rparr>"

definition ex_older :: Todo where
  "ex_older = \<lparr>ID = NilObjectID, Title = ''older'', Completed = True,
     CreatedAt = 1600000000000000000\<rparr>"

definition ex_two_items :: state where
  "ex_two_items = \<lparr>Collection = [ex_older, ex_todo], Redis = Map.empty\<rparr>"

section \<open>Identifiers, the store and the cache: basic facts\<close>

text \<open>The defining equations, grouped for unfolding.\<close>

lemmas rw_defs = finish_def Write_def WriteHeader_def new_ResponseWriter_def http_Error_def
  Header_Set_def Header_Del_def

lemmas ex_defs = ex_env_def ex_req_def ex_id_def ex_ID_upper_def ex_oid_def ex_todo_def
  ex_store_only_def ex_set_completed_def ex_state_def empty_state_def

lemmas store_defs = FindOne_def InsertOne_def UpdateOne_def DeleteOne_def Find_All_def
  bson_doc_def apply_set_def

lemmas cache_defs = Redis_Get_def Redis_Set_def Redis_Del_def json_Marshal_todo_def
  json_Marshal_todos_def

lemmas hex_defs = ObjectIDFromHex_def fromHexChar_def

lemma ex_ID_upper_decodes: "ObjectIDFromHex ex_ID_upper = (ex_oid, None)"
  by (simp add: ObjectIDFromHex_def fromHexChar_def ex_ID_upper_def ex_oid_def)

lemma xyz_malformed: "ObjectIDFromHex ''xyz'' = (NilObjectID, Some ErrInvalidHex)"
  by (simp add: ObjectIDFromHex_def)

lemma isForm_json: "\<not> isForm (ex_json_create t)"
  by (simp add: isForm_def ex_json_create_def)

lemma isForm_form: "isForm (ex_form_create t)"
  by (simp add: isForm_def ex_form_create_def)

lemma NilObjectID_bytes: "NilObjectID = [0, 0, 0, 0, 0, 0, 0, 0, 0, 0, 0, 0]"
  by (simp add: NilObjectID_def eval_nat_numeral)

lemma ex_id_decodes: "ObjectIDFromHex ex_id = (ex_oid, None)"
  by (simp add: ObjectIDFromHex_def fromHexChar_def ex_id_def ex_oid_def)

lemma set_sort_createdAt_desc [simp]: "set (sort_createdAt_desc ds) = set ds"
  by (simp add: sort_createdAt_desc_def)

lemma set_update_first_ids [simp]: "ID ` set (update_first oid u ds) = ID ` set ds"
  by (induction ds) (auto simp: apply_set_def)

lemma set_delete_first: "set (delete_first oid ds) \<subseteq> set ds"
  by (induction ds) auto


lemma del_keys_apply: "del_keys ks m k = (if k \<in> set ks then None else m k)"
  by (induction ks arbitrary: m) auto



lemma deleteTodo_ok:
  assumes "ObjectIDFromHex (URLParam_id r) = (oid, None)" and "\<not> mongo_err e"
  shows "deleteTodo e r (w, s) =
     (Write (Text ''{\"status\":\"deleted\"}'') (WriteHeader 200 w),
      Redis_Del e [''todos:all'', ''todo:'' @ URLParam_id r]
        (s\<lparr>Collection := delete_first oid (Collection s)\<rparr>))"
  using assms by (simp add: deleteTodo_def DeleteOne_def)

text \<open>Every handler keeps the identifiers of the store unique.\<close>

lemma map_ID_update_first [simp]: "map ID (update_first oid u ds) = map ID ds"
  by (induction ds) (auto simp: apply_set_def)

lemma distinct_delete_first: "distinct (map ID ds) \<Longrightarrow> distinct (map ID (delete_first oid ds))"
proof (induction ds)
  case Nil
  then show ?case by simp
next
  case (Cons d ds)
  have "ID d \<notin> ID ` set (delete_first oid ds)"
    using Cons.prems set_delete_first [of oid ds] by auto
  then show ?case using Cons by simp
qed

lemma unique_ids_Redis [simp]:
  "unique_ids (Redis_Del e ks s) = unique_ids s"
  "unique_ids (Redis_Set e k v s) = unique_ids s"
  by (simp_all add: unique_ids_def Redis_Del_def Redis_Set_def)

lemma unique_ids_InsertOne: "InsertOne e t s = (x, s') \<Longrightarrow> unique_ids s \<Longrightarrow> unique_ids s'"
  by (auto simp: unique_ids_def InsertOne_def split: if_splits)

lemma unique_ids_UpdateOne: "UpdateOne e i u s = (x, s') \<Longrightarrow> unique_ids s \<Longrightarrow> unique_ids s'"
  by (auto simp: unique_ids_def UpdateOne_def split: if_splits)

lemma unique_ids_DeleteOne: "DeleteOne e i s = (x, s') \<Longrightarrow> unique_ids s \<Longrightarrow> unique_ids s'"
  by (auto simp: unique_ids_def DeleteOne_def distinct_delete_first split: if_splits)

lemma unique_ids_getAllTodos: "getAllTodos e s = (x, s') \<Longrightarrow> unique_ids s \<Longrightarrow> unique_ids s'"
  by (auto simp: getAllTodos_def getAllTodos_store_def Find_All_def Let_def
      split: option.splits prod.splits if_splits)

lemma unique_ids_deleteTodo:
  "deleteTodo e r (w, s) = (w', s') \<Longrightarrow> unique_ids s \<Longrightarrow> unique_ids s'"
  by (auto simp: deleteTodo_def Let_def split: option.splits prod.splits
      elim: unique_ids_DeleteOne)

lemma unique_ids_createTodo_title:
  "createTodo_title t e r (w, s) = (w', s') \<Longrightarrow> unique_ids s \<Longrightarrow> unique_ids s'"
  by (auto simp: createTodo_title_def Let_def split: option.splits prod.splits if_splits
      elim: unique_ids_InsertOne)

lemma unique_ids_setupRoutes:
  assumes h: "setupRoutes rt e r (w, s) = (w', s')" and u: "unique_ids s"
  shows "unique_ids s'"
proof (cases rt)
  case GET_health
  then show ?thesis using h u by (auto simp: handleHealth_def)
next
  case GET_home
  then show ?thesis using h u
    by (auto simp: handleHome_def split: prod.splits option.splits elim: unique_ids_getAllTodos)
next
  case GET_todos
  then show ?thesis using h u
    by (auto simp: listTodos_def split: prod.splits option.splits elim: unique_ids_getAllTodos)
next
  case POST_todos
  then show ?thesis using h u
    by (auto simp: createTodo_def split: option.splits if_splits elim: unique_ids_createTodo_title)
next
  case GET_todo
  then show ?thesis using h u
    by (auto simp: getTodo_def Let_def split: prod.splits option.splits)
next
  case PUT_todo
  then show ?thesis using h u
    by (auto simp: updateTodo_def Let_def split: option.splits prod.splits
        elim: unique_ids_UpdateOne)
next
  case DELETE_todo
  then show ?thesis using h u by (auto elim: unique_ids_deleteTodo)
next
  case POST_todo_delete
  obtain w1 s1 where d: "deleteTodo e r (w, s) = (w1, s1)" by (cases "deleteTodo e r (w, s)")
  then have "unique_ids s1" using u by (rule unique_ids_deleteTodo)
  then show ?thesis using POST_todo_delete d h
    by (auto simp: deleteTodoForm_def Let_def split: option.splits prod.splits
        elim: unique_ids_DeleteOne)
qed

section \<open>Deleting an item\<close>

text \<open>
  A list read does its cache lookup, its query and its cache write as three separate
  calls, and handlers are not coordinated. When the query of a list read comes before a
  \<^verbatim>\<open>DELETE\<close> and its cache write after it, the deleted item is cached again: the
  \<^verbatim>\<open>DELETE\<close> has emptied the store and removed \<^verbatim>\<open>todos:all\<close>, and the next list
  read is served the item from the cache.
\<close>

lemma list_read_overlapping_delete:
  "fst (Find_All ex_env ex_store_only) = Some [ex_todo] \<and>
   Collection (snd (serve DELETE_todo ex_env (ex_req ''DELETE'' ex_id) ex_store_only)) = [] \<and>
   Redis (snd (serve DELETE_todo ex_env (ex_req ''DELETE'' ex_id) ex_store_only)) ''todos:all'' = None \<and>
   fst (getAllTodos ex_env
     (Redis_Set ex_env ''todos:all'' (json_Marshal_todos (fst (Find_All ex_env ex_store_only)))
        (snd (serve DELETE_todo ex_env (ex_req ''DELETE'' ex_id) ex_store_only)))) =
     (Some [ex_todo], None)"
  by (simp add: serve_def deleteTodo_def getAllTodos_def sort_createdAt_desc_def ex_defs
      store_defs cache_defs hex_defs rw_defs Let_def)




section \<open>Malformed identifiers\<close>

lemma updateTodo_malformed:
  "snd (ObjectIDFromHex (URLParam_id r)) \<noteq> None \<Longrightarrow> status (fst (serve PUT_todo e r s)) = 400"
  by (cases "ObjectIDFromHex (URLParam_id r)") (auto simp: serve_def updateTodo_def rw_defs Let_def)

lemma deleteTodo_malformed:
  "snd (ObjectIDFromHex (URLParam_id r)) \<noteq> None \<Longrightarrow> status (fst (serve DELETE_todo e r s)) = 400"
  by (cases "ObjectIDFromHex (URLParam_id r)") (auto simp: serve_def deleteTodo_def rw_defs Let_def)

lemma getTodo_malformed:
  assumes "snd (ObjectIDFromHex (URLParam_id r)) \<noteq> None"
    and "Redis_Get e s (''todo:'' @ URLParam_id r) = None"
    and "NilObjectID \<notin> ID ` set (Collection s)"
  shows "status (fst (serve GET_todo e r s)) = 404"
proof -
  have "fst (ObjectIDFromHex (URLParam_id r)) = NilObjectID"
    using assms(1) by (auto simp: ObjectIDFromHex_def split: option.splits if_splits)
  moreover have "find (\<lambda>d. ID d = NilObjectID) (Collection s) = None"
    using assms(3) by (force simp: find_None_iff)
  ultimately show ?thesis using assms(2)
    by (auto simp: serve_def getTodo_def FindOne_def rw_defs Let_def)
qed

text \<open>
  C2. A malformed \<^verbatim>\<open>{id}\<close> should be answered with status 400 on \<^verbatim>\<open>GET\<close>, \<^verbatim>\<open>PUT\<close> and
  \<^verbatim>\<open>DELETE /todos/{id}\<close>. \<^verbatim>\<open>updateTodo\<close> and \<^verbatim>\<open>deleteTodo\<close> do so
  (\<open>updateTodo_malformed\<close>, \<open>deleteTodo_malformed\<close>), but \<^verbatim>\<open>getTodo\<close> drops the error of
  \<^verbatim>\<open>ObjectIDFromHex\<close> and looks the zero identifier up: for the path segment \<^verbatim>\<open>xyz\<close> it
  answers 404, where the two other handlers answer 400.
\<close>

theorem getTodo_malformed_id_404:
  "snd (ObjectIDFromHex (URLParam_id (ex_req ''GET'' ''xyz''))) = Some ErrInvalidHex \<and>
   status (fst (serve GET_todo ex_env (ex_req ''GET'' ''xyz'') ex_state)) = 404 \<and>
   status (fst (serve PUT_todo ex_env (ex_req ''PUT'' ''xyz'') ex_state)) = 400 \<and>
   status (fst (serve DELETE_todo ex_env (ex_req ''DELETE'' ''xyz'') ex_state)) = 400"
  by (simp add: xyz_malformed ex_req_def updateTodo_malformed deleteTodo_malformed
     getTodo_malformed Redis_Get_def ex_env_def ex_state_def ex_todo_def ex_oid_def NilObjectID_bytes)

section \<open>The form alias of deletion\<close>

lemma deleteTodo_wroteHeader: "wroteHeader (fst (deleteTodo e r (w, s)))"
  by (auto simp: deleteTodo_def rw_defs Let_def split: prod.splits option.splits)

lemma deleteTodo_fresh_Location:
  "sent_Header (fst (deleteTodo e r (new_ResponseWriter, s))) ''Location'' = None"
  by (auto simp: deleteTodo_def rw_defs Let_def split: prod.splits option.splits)

lemma wrote_http_Error:
  "wroteHeader w \<Longrightarrow> status (http_Error m c w) = status w \<and> sent_Header (http_Error m c w) = sent_Header w
     \<and> wroteHeader (http_Error m c w)"
  by (simp add: rw_defs)

lemma wrote_http_Redirect:
  "wroteHeader w \<Longrightarrow> status (http_Redirect r u c w) = status w \<and>
     sent_Header (http_Redirect r u c w) = sent_Header w \<and> wroteHeader (http_Redirect r u c w)"
  by (simp add: http_Redirect_def rw_defs Let_def)

lemma deleteTodoForm_keeps:
  assumes "deleteTodo e r (w0, s0) = (w1, s1)"
  shows "status (fst (deleteTodoForm e r (w0, s0))) = status w1 \<and>
         sent_Header (fst (deleteTodoForm e r (w0, s0))) = sent_Header w1 \<and>
         wroteHeader (fst (deleteTodoForm e r (w0, s0)))"
proof -
  have "wroteHeader w1" using deleteTodo_wroteHeader [of e r w0 s0] assms by simp
  then show ?thesis using assms
    by (auto simp: deleteTodoForm_def Let_def wrote_http_Error wrote_http_Redirect
        split: prod.splits option.splits)
qed

lemma delete_first_twice:
  "distinct (map ID ds) \<Longrightarrow> delete_first oid (delete_first oid ds) = delete_first oid ds"
proof (induction ds)
  case Nil
  then show ?case by simp
next
  case (Cons d ds)
  show ?case
  proof (cases "ID d = oid")
    case True
    then have "oid \<notin> ID ` set ds" using Cons.prems by auto
    then have "delete_first oid ds = ds" by (induction ds) auto
    then show ?thesis using True by simp
  next
    case False
    then show ?thesis using Cons by simp
  qed
qed

lemma del_keys_twice: "del_keys ks (del_keys ks m) = del_keys ks m"
  by (rule ext) (simp add: del_keys_apply)

lemma deleteTodoForm_same_state:
  assumes "unique_ids s"
  shows "snd (deleteTodoForm e r (w, s)) = snd (deleteTodo e r (w, s))"
  using assms [unfolded unique_ids_def]
  by (cases "ObjectIDFromHex (URLParam_id r)")
     (auto simp: deleteTodoForm_def deleteTodo_def DeleteOne_def Redis_Del_def Let_def
        delete_first_twice del_keys_twice simp del: del_keys.simps split: option.splits)

text \<open>
  C8. \<^verbatim>\<open>POST /todos/{id}/delete\<close> should answer with a redirect where
  \<^verbatim>\<open>DELETE /todos/{id}\<close> answers with a JSON status. \<^verbatim>\<open>deleteTodoForm\<close> still calls
  \<^verbatim>\<open>deleteTodo\<close> first, which writes the status line and the JSON body, so the later
  \<^verbatim>\<open>http.Redirect\<close> comes too late: on every request the status is the one \<^verbatim>\<open>deleteTodo\<close>
  sends, it is never 303, and no \<^verbatim>\<open>Location\<close> header is sent. The store and the
  cache do end as after \<^verbatim>\<open>DELETE\<close> (\<open>deleteTodoForm_same_state\<close>).
\<close>

theorem deleteTodoForm_answers_like_deleteTodo:
  "status (fst (serve POST_todo_delete e r s)) = status (fst (serve DELETE_todo e r s)) \<and>
   status (fst (serve POST_todo_delete e r s)) \<noteq> 303 \<and>
   sent_Header (fst (serve POST_todo_delete e r s)) ''Location'' = None"
proof -
  obtain w1 s1 where d: "deleteTodo e r (new_ResponseWriter, s) = (w1, s1)"
    by (cases "deleteTodo e r (new_ResponseWriter, s)")
  obtain w2 s2 where f: "deleteTodoForm e r (new_ResponseWriter, s) = (w2, s2)"
    by (cases "deleteTodoForm e r (new_ResponseWriter, s)")
  have k: "status w2 = status w1 \<and> sent_Header w2 = sent_Header w1 \<and> wroteHeader w2"
    using deleteTodoForm_keeps [OF d] f by simp
  have w1: "wroteHeader w1" using deleteTodo_wroteHeader [of e r new_ResponseWriter s] d by simp
  have st: "status w1 \<noteq> 303" using d
    by (auto simp: deleteTodo_def rw_defs Let_def split: prod.splits option.splits)
  have loc: "sent_Header w1 ''Location'' = None"
    using deleteTodo_fresh_Location [of e r s] d by simp
  show ?thesis using k w1 st loc d f by (simp add: serve_def finish_def)
qed

lemma deleteTodoForm_example:
  "status (fst (serve POST_todo_delete ex_env (ex_req ''POST'' ex_id) ex_state)) = 200 \<and>
   body (fst (serve POST_todo_delete ex_env (ex_req ''POST'' ex_id) ex_state)) =
     [Text ''{\"status\":\"deleted\"}''] \<and>
   sent_Header (fst (serve POST_todo_delete ex_env (ex_req ''POST'' ex_id) ex_state)) = Map.empty \<and>
   Collection (snd (serve POST_todo_delete ex_env (ex_req ''POST'' ex_id) ex_state)) = []"
  by (simp add: serve_def deleteTodoForm_def deleteTodo_ok ex_req_def ex_id_decodes ex_env_def
      ex_state_def ex_todo_def DeleteOne_def Redis_Del_def http_Redirect_def rw_defs Let_def)

section \<open>Reading an item after an update\<close>

text \<open>With the spelling of the update, the next read shows the new flag.\<close>

lemma find_update_first:
  "find (\<lambda>d. ID d = oid) (update_first oid u ds) =
     map_option (apply_set u) (find (\<lambda>d. ID d = oid) ds)"
  by (induction ds) (auto simp: apply_set_def)

lemma read_after_update_same_spelling:
  assumes upd: "serve PUT_todo e r s = (w, s')" "status w = 200"
      "Decode_update r = Some u" "upd_Completed u = Some c"
    and del: "\<not> redis_del_err e"
    and item: "find (\<lambda>d. ID d = fst (ObjectIDFromHex (URLParam_id r))) (Collection s) = Some d"
    and rd: "URLParam_id r' = URLParam_id r" "\<not> mongo_err e'"
  shows "\<exists>d'. body (fst (serve GET_todo e' r' s')) = [Raw (JSON_todo d'), Text [CHR 0x0A]] \<and>
     Completed d' = c \<and> ID d' = ID d"
proof -
  obtain oid er where o: "ObjectIDFromHex (URLParam_id r) = (oid, er)"
    by (cases "ObjectIDFromHex (URLParam_id r)")
  have er: "er = None"
    using upd(1,2) o by (cases er) (auto simp: serve_def updateTodo_def rw_defs)
  have s': "Collection s' = update_first oid u (Collection s)"
      "Redis s' = del_keys [''todos:all'', ''todo:'' @ URLParam_id r] (Redis s)"
    using upd o er del
    by (auto simp: serve_def updateTodo_def UpdateOne_def Redis_Del_def rw_defs Let_def
        split: if_splits)
  have miss: "Redis_Get e' s' (''todo:'' @ URLParam_id r') = None"
    by (simp add: Redis_Get_def s' rd del_keys_apply)
  have f: "find (\<lambda>d. ID d = oid) (Collection s') = Some (apply_set u d)"
    using item o by (simp add: s' find_update_first)
  show ?thesis
    unfolding serve_def setupRoutes.simps getTodo_def
    using miss f o rd upd(4)
    by (simp add: FindOne_def Encode_todo_def json_Marshal_todo_def apply_set_def rw_defs)
qed

text \<open>
  C7. After a successful \<^verbatim>\<open>PUT /todos/{id}\<close> that sets the completion flag, a
  \<^verbatim>\<open>GET /todos/{id}\<close> should show the new flag. The cache key is built from the path
  segment as it was typed, and \<^verbatim>\<open>ObjectIDFromHex\<close> reads upper-case digits as well: after
  a \<^verbatim>\<open>GET\<close> with the lower-case spelling has cached the item, a \<^verbatim>\<open>PUT\<close> with the
  upper-case spelling of the same identifier updates the store (status 200, the stored
  flag is true) and deletes another key, and the next \<^verbatim>\<open>GET\<close> with the lower-case
  spelling still answers with the flag false.
\<close>

theorem stale_read_after_update:
  "ObjectIDFromHex ex_ID_upper = ObjectIDFromHex ex_id \<and>
   status (fst (serve PUT_todo ex_env ex_set_completed
     (snd (serve GET_todo ex_env (ex_req ''GET'' ex_id) ex_store_only)))) = 200 \<and>
   map Completed (Collection (snd (serve PUT_todo ex_env ex_set_completed
     (snd (serve GET_todo ex_env (ex_req ''GET'' ex_id) ex_store_only))))) = [True] \<and>
   body (fst (serve GET_todo ex_env (ex_req ''GET'' ex_id)
     (snd (serve PUT_todo ex_env ex_set_completed
       (snd (serve GET_todo ex_env (ex_req ''GET'' ex_id) ex_store_only)))))) =
     [Raw (JSON_todo (ex_todo\<lparr>Completed := False\<rparr>))]"
  by (simp add: serve_def getTodo_def updateTodo_def ex_defs store_defs cache_defs hex_defs
      rw_defs Let_def)

section \<open>Creating an item\<close>

text \<open>
  C4. A \<^verbatim>\<open>POST /todos\<close>, form-encoded or JSON, whose title is empty or missing (or whose
  body cannot be read at all) is answered with status 400, and the store and the cache
  are left as they were.
\<close>

theorem createTodo_empty_title:
  assumes "isForm r \<longrightarrow> (\<forall>f. ParseForm r = Some f \<longrightarrow> FormValue f ''title'' = [])"
    and "\<not> isForm r \<longrightarrow> (\<forall>q. Decode_create r = Some q \<longrightarrow> req_Title q = [])"
  shows "status (fst (serve POST_todos e r s)) = 400 \<and> snd (serve POST_todos e r s) = s"
  using assms
  by (auto simp: serve_def createTodo_def createTodo_title_def rw_defs split: option.splits)

theorem createTodo_empty_title_witness:
  "status (fst (serve POST_todos ex_env (ex_json_create []) ex_state)) = 400 \<and>
   snd (serve POST_todos ex_env (ex_json_create []) ex_state) = ex_state \<and>
   status (fst (serve POST_todos ex_env (ex_form_create []) ex_state)) = 400 \<and>
   snd (serve POST_todos ex_env (ex_form_create []) ex_state) = ex_state"
proof -
  have j1: "isForm (ex_json_create []) \<longrightarrow>
      (\<forall>f. ParseForm (ex_json_create []) = Some f \<longrightarrow> FormValue f ''title'' = [])"
    by (simp add: isForm_json)
  have j2: "\<not> isForm (ex_json_create []) \<longrightarrow>
      (\<forall>q. Decode_create (ex_json_create []) = Some q \<longrightarrow> req_Title q = [])"
    by (auto simp: ex_json_create_def)
  have f1: "isForm (ex_form_create []) \<longrightarrow>
      (\<forall>f. ParseForm (ex_form_create []) = Some f \<longrightarrow> FormValue f ''title'' = [])"
    by (auto simp: ex_form_create_def FormValue_def)
  have f2: "\<not> isForm (ex_form_create []) \<longrightarrow>
      (\<forall>q. Decode_create (ex_form_create []) = Some q \<longrightarrow> req_Title q = [])"
    by (simp add: isForm_form)
  show ?thesis
    using createTodo_empty_title [OF j1 j2, of ex_env ex_state]
      createTodo_empty_title [OF f1 f2, of ex_env ex_state]
    by simp
qed

text \<open>
  C6, as amended. A \<^verbatim>\<open>POST /todos\<close> with a non-empty title, on which the store takes
  the insert (no store error, and \<^verbatim>\<open>NewObjectID\<close> gives a non-zero identifier not in
  the collection yet), stores a record with the generated identifier, the given title,
  the completion flag false and the creation time cut to whole milliseconds. A JSON
  request is answered with status 201 and the representation of the new item with that
  identifier, title and flag and the creation time as read from the clock; a
  form-encoded request is answered with a 303 redirect to \<^verbatim>\<open>/\<close> and no representation.
\<close>

theorem createTodo_response_and_record:
  assumes title: "isForm r \<longrightarrow> (\<exists>f. ParseForm r = Some f \<and> FormValue f ''title'' = t)"
      "\<not> isForm r \<longrightarrow> (\<exists>q. Decode_create r = Some q \<and> req_Title q = t)"
      "t \<noteq> []"
    and store: "\<not> mongo_err e" "NewObjectID e \<noteq> NilObjectID"
      "NewObjectID e \<notin> ID ` set (Collection s)"
  shows "Collection (snd (serve POST_todos e r s)) =
           Collection s @ [\<lparr>ID = NewObjectID e, Title = t, Completed = False,
                            CreatedAt = bson_time (time_Now e)\<rparr>] \<and>
         (\<not> isForm r \<longrightarrow>
            status (fst (serve POST_todos e r s)) = 201 \<and>
            body (fst (serve POST_todos e r s)) =
              [Raw (JSON_todo \<lparr>ID = NewObjectID e, Title = t, Completed = False,
                               CreatedAt = time_Now e\<rparr>), Text [CHR 0x0A]]) \<and>
         (isForm r \<longrightarrow>
            status (fst (serve POST_todos e r s)) = 303 \<and>
            sent_Header (fst (serve POST_todos e r s)) ''Location'' = Some ''/'' \<and>
            (Method r = ''POST'' \<longrightarrow> body (fst (serve POST_todos e r s)) = []))"
proof -
  let ?new = "\<lparr>ID = NewObjectID e, Title = t, Completed = False, CreatedAt = time_Now e\<rparr>"
  have ins: "InsertOne e ?new s =
      (None, s\<lparr>Collection := Collection s @ [?new\<lparr>CreatedAt := bson_time (time_Now e)\<rparr>]\<rparr>)"
    using store by (simp add: InsertOne_def bson_doc_def)
  have c: "createTodo e r (new_ResponseWriter, s) = createTodo_title t e r (new_ResponseWriter, s)"
    using title(1,2) by (cases "isForm r") (auto simp: createTodo_def)
  have ct: "createTodo_title t e r (new_ResponseWriter, s) =
      (if isForm r then http_Redirect r ''/'' 303 new_ResponseWriter
       else Encode_todo ?new (WriteHeader 201
              (Header_Set ''Content-Type'' ''application/json'' new_ResponseWriter)),
       Redis_Del e [''todos:all'']
         (s\<lparr>Collection := Collection s @ [?new\<lparr>CreatedAt := bson_time (time_Now e)\<rparr>]\<rparr>))"
    using title(3) by (simp add: createTodo_title_def ins)
  show ?thesis
    unfolding serve_def setupRoutes.simps c ct
    by (auto simp: Redis_Del_def http_Redirect_def Encode_todo_def json_Marshal_todo_def
        rw_defs Let_def)
qed

theorem createTodo_response_and_record_witness:
  "Collection (snd (serve POST_todos ex_env (ex_json_create ''buy milk'') empty_state)) =
     [\<lparr>ID = ex_oid, Title = ''buy milk'', Completed = False, CreatedAt = 1700000000123000000\<rparr>] \<and>
   status (fst (serve POST_todos ex_env (ex_json_create ''buy milk'') empty_state)) = 201 \<and>
   body (fst (serve POST_todos ex_env (ex_json_create ''buy milk'') empty_state)) =
     [Raw (JSON_todo \<lparr>ID = ex_oid, Title = ''buy milk'', Completed = False,
                      CreatedAt = 1700000000123456789\<rparr>), Text [CHR 0x0A]]"
proof -
  let ?r = "ex_json_create ''buy milk''"
  have h1: "isForm ?r \<longrightarrow> (\<exists>f. ParseForm ?r = Some f \<and> FormValue f ''title'' = ''buy milk'')"
    by (simp add: isForm_json)
  have h2: "\<not> isForm ?r \<longrightarrow> (\<exists>q. Decode_create ?r = Some q \<and> req_Title q = ''buy milk'')"
    by (simp add: ex_json_create_def)
  have h3: "''buy milk'' \<noteq> []" by simp
  have h4: "\<not> mongo_err ex_env" by (simp add: ex_env_def)
  have h5: "NewObjectID ex_env \<noteq> NilObjectID"
    by (simp add: ex_env_def ex_oid_def NilObjectID_bytes)
  have h6: "NewObjectID ex_env \<notin> ID ` set (Collection empty_state)"
    by (simp add: empty_state_def)
  show ?thesis
    using createTodo_response_and_record [OF h1 h2 h3 h4 h5 h6] isForm_json [of "''buy milk''"]
    by (simp add: ex_env_def empty_state_def bson_time_def)
qed

theorem form_create_counterexample:
  "FormValue (the (ParseForm (ex_form_create ''buy milk''))) ''title'' = ''buy milk'' \<and>
   status (fst (serve POST_todos ex_env (ex_form_create ''buy milk'') empty_state)) = 303 \<and>
   body (fst (serve POST_todos ex_env (ex_form_create ''buy milk'') empty_state)) = [] \<and>
   map Title (Collection (snd (serve POST_todos ex_env (ex_form_create ''buy milk'') empty_state))) =
     [''buy milk'']"
  by (simp add: serve_def createTodo_def createTodo_title_def isForm_def ex_form_create_def
      FormValue_def http_Redirect_def ex_defs store_defs cache_defs rw_defs NilObjectID_bytes Let_def)

section \<open>Invalidation of the cache on writes\<close>

text \<open>The keys a write handler deletes when it answers without an error status and the
  cache takes the deletion.\<close>

lemma status_http_Error_fresh: "status (finish (http_Error m c new_ResponseWriter)) = c"
  by (simp add: rw_defs)

lemma createTodo_title_invalidates:
  assumes "createTodo_title t e r (new_ResponseWriter, s) = (w, s')"
    and "status (finish w) < 400" and "\<not> redis_del_err e"
  shows "Redis s' = del_keys [''todos:all''] (Redis s)"
  using assms
  by (auto simp: createTodo_title_def status_http_Error_fresh Redis_Del_def InsertOne_def Let_def
      split: if_splits)

lemma createTodo_invalidates:
  assumes "createTodo e r (new_ResponseWriter, s) = (w, s')"
    and "status (finish w) < 400" and "\<not> redis_del_err e"
  shows "Redis s' = del_keys [''todos:all''] (Redis s)"
proof -
  have "\<exists>t. createTodo_title t e r (new_ResponseWriter, s) = (w, s')"
    using assms(1,2)
    by (auto simp: createTodo_def status_http_Error_fresh split: if_splits option.splits)
  then obtain t where "createTodo_title t e r (new_ResponseWriter, s) = (w, s')" ..
  then show ?thesis using assms(2,3) by (rule createTodo_title_invalidates)
qed

lemma updateTodo_invalidates:
  assumes "updateTodo e r (new_ResponseWriter, s) = (w, s')"
    and "status (finish w) < 400" and "\<not> redis_del_err e"
  shows "Redis s' = del_keys [''todos:all'', ''todo:'' @ URLParam_id r] (Redis s)"
  using assms
  by (cases "ObjectIDFromHex (URLParam_id r)")
     (auto simp: updateTodo_def status_http_Error_fresh Redis_Del_def UpdateOne_def Let_def
      split: if_splits option.splits)

lemma deleteTodo_invalidates:
  assumes "deleteTodo e r (new_ResponseWriter, s) = (w, s')"
    and "status (finish w) < 400" and "\<not> redis_del_err e"
  shows "Redis s' = del_keys [''todos:all'', ''todo:'' @ URLParam_id r] (Redis s)"
  using assms
  by (cases "ObjectIDFromHex (URLParam_id r)")
     (auto simp: deleteTodo_def status_http_Error_fresh Redis_Del_def DeleteOne_def Let_def
      split: if_splits option.splits)

lemma deleteTodoForm_invalidates:
  assumes "deleteTodoForm e r (new_ResponseWriter, s) = (w, s')"
    and "status (finish w) < 400" and "\<not> redis_del_err e"
  shows "Redis s' (''todos:all'') = None \<and> Redis s' (''todo:'' @ URLParam_id r) = None"
proof -
  obtain w1 s1 where d: "deleteTodo e r (new_ResponseWriter, s) = (w1, s1)"
    by (cases "deleteTodo e r (new_ResponseWriter, s)")
  have k: "status w = status w1" "wroteHeader w1" "wroteHeader w"
    using deleteTodoForm_keeps [OF d] deleteTodo_wroteHeader [of e r new_ResponseWriter s] d assms(1)
    by simp_all
  then have "status (finish w1) < 400" using assms(2) by (simp add: finish_def)
  then have ok: "snd (ObjectIDFromHex (URLParam_id r)) = None" "\<not> mongo_err e"
    using d
    by (cases "ObjectIDFromHex (URLParam_id r)";
        auto simp: deleteTodo_def DeleteOne_def Let_def rw_defs split: option.splits if_splits)+
  then show ?thesis using assms(1) assms(3) d
    by (cases "ObjectIDFromHex (URLParam_id r)")
       (auto simp: deleteTodoForm_def DeleteOne_def Redis_Del_def Let_def
        split: option.splits if_splits prod.splits)
qed

lemma updateTodo_keeps_other_keys:
  assumes "k \<noteq> ''todos:all''" and "k \<noteq> ''todo:'' @ URLParam_id r"
  shows "Redis (snd (updateTodo e r (w, s))) k = Redis s k"
  using assms
  by (cases "ObjectIDFromHex (URLParam_id r)")
     (auto simp: updateTodo_def UpdateOne_def Redis_Del_def Let_def split: option.splits)

lemma deleteTodo_keeps_other_keys:
  assumes "k \<noteq> ''todos:all''" and "k \<noteq> ''todo:'' @ URLParam_id r"
  shows "Redis (snd (deleteTodo e r (w, s))) k = Redis s k"
  using assms
  by (cases "ObjectIDFromHex (URLParam_id r)")
     (auto simp: deleteTodo_def DeleteOne_def Redis_Del_def Let_def split: option.splits)

text \<open>
  C3. A successful write should delete the list entry and the item entry of the item
  it touches. The write handlers delete \<^verbatim>\<open>todos:all\<close> and, for update and delete, the
  key built from the path segment as it was typed; every other key stays. Since
  \<^verbatim>\<open>ObjectIDFromHex\<close> reads upper-case digits as well, the item entry that a \<^verbatim>\<open>GET\<close>
  cached under the lower-case spelling, which is the spelling \<^verbatim>\<open>Hex\<close> prints, survives
  a \<^verbatim>\<open>DELETE\<close> sent with the upper-case spelling: the request is answered with status
  200, the store has lost the item, the entry is still in the cache, and the next
  \<^verbatim>\<open>GET\<close> with the lower-case spelling is answered with the deleted item.
\<close>

theorem delete_leaves_item_entry:
  "ObjectIDFromHex ex_ID_upper = (ex_oid, None) \<and> Hex ex_oid = ex_id \<and>
   status (fst (serve DELETE_todo ex_env (ex_req ''DELETE'' ex_ID_upper)
     (snd (serve GET_todo ex_env (ex_req ''GET'' ex_id) ex_store_only)))) = 200 \<and>
   Collection (snd (serve DELETE_todo ex_env (ex_req ''DELETE'' ex_ID_upper)
     (snd (serve GET_todo ex_env (ex_req ''GET'' ex_id) ex_store_only)))) = [] \<and>
   Redis (snd (serve DELETE_todo ex_env (ex_req ''DELETE'' ex_ID_upper)
     (snd (serve GET_todo ex_env (ex_req ''GET'' ex_id) ex_store_only))))
       (''todo:'' @ Hex ex_oid) = Some (JSON_todo ex_todo) \<and>
   status (fst (serve GET_todo ex_env (ex_req ''GET'' ex_id)
     (snd (serve DELETE_todo ex_env (ex_req ''DELETE'' ex_ID_upper)
       (snd (serve GET_todo ex_env (ex_req ''GET'' ex_id) ex_store_only)))))) = 200 \<and>
   body (fst (serve GET_todo ex_env (ex_req ''GET'' ex_id)
     (snd (serve DELETE_todo ex_env (ex_req ''DELETE'' ex_ID_upper)
       (snd (serve GET_todo ex_env (ex_req ''GET'' ex_id) ex_store_only)))))) =
     [Raw (JSON_todo ex_todo)]"
  by (simp add: serve_def getTodo_def deleteTodo_def ex_defs store_defs cache_defs hex_defs
      hextable_def rw_defs Let_def)

section \<open>Reads and cache failures\<close>

lemma sort_createdAt_desc_Nil [simp]: "sort_createdAt_desc [] = []"
  by (simp add: sort_createdAt_desc_def)

lemma getAllTodos_store_result:
  "fst (getAllTodos_store e s) =
     (if mongo_err e then (None, Some ErrStore)
      else (Some (sort_createdAt_desc (Collection s)), None))"
  by (simp add: getAllTodos_store_def Find_All_def Let_def)

lemma getAllTodos_miss:
  assumes "redis_get_err e \<or> Redis s ''todos:all'' = None \<or>
     (\<exists>v. Redis s ''todos:all'' = Some v \<and> snd (json_Unmarshal_todos v) \<noteq> None)"
  shows "getAllTodos e s = getAllTodos_store e s"
  using assms
  by (auto simp: getAllTodos_def Redis_Get_def split: option.splits prod.splits)

lemma listTodos_status:
  "status (fst (serve GET_todos e r s)) = (if snd (fst (getAllTodos e s)) = None then 200 else 500)"
  by (auto simp: serve_def listTodos_def Encode_todos_def rw_defs split: prod.splits option.splits)

text \<open>
  C5, as amended. A list read whose cache lookup fails, or returns a value that does
  not deserialize, reads the store and returns its result, newest first; the response
  is an error only if the store fails. A single-item read whose cache lookup fails
  reads the store: status 200 with the stored item, or 404. A single-item read whose
  cache lookup returns a value writes that value to the response as it is, with status
  200: it is not deserialized, so a value that is not JSON is not treated as a miss.
\<close>

theorem cache_failure_falls_back:
  "(redis_get_err e \<or> (\<exists>v. Redis s ''todos:all'' = Some v \<and> snd (json_Unmarshal_todos v) \<noteq> None) \<longrightarrow>
      fst (getAllTodos e s) =
        (if mongo_err e then (None, Some ErrStore)
         else (Some (sort_createdAt_desc (Collection s)), None)) \<and>
      status (fst (serve GET_todos e r s)) = (if mongo_err e then 500 else 200)) \<and>
   (redis_get_err e \<longrightarrow>
      (case fst (FindOne e s (fst (ObjectIDFromHex (URLParam_id r)))) of
         Some d \<Rightarrow> status (fst (serve GET_todo e r s)) = 200 \<and>
                   body (fst (serve GET_todo e r s)) = [Raw (JSON_todo d), Text [CHR 0x0A]]
       | None \<Rightarrow> status (fst (serve GET_todo e r s)) = 404)) \<and>
   (\<not> redis_get_err e \<longrightarrow> (\<forall>v. Redis s (''todo:'' @ URLParam_id r) = Some v \<longrightarrow>
      status (fst (serve GET_todo e r s)) = 200 \<and> body (fst (serve GET_todo e r s)) = [Raw v]))"
proof (intro conjI impI allI)
  assume a: "redis_get_err e \<or> (\<exists>v. Redis s ''todos:all'' = Some v \<and> snd (json_Unmarshal_todos v) \<noteq> None)"
  then have m: "getAllTodos e s = getAllTodos_store e s" by (auto intro: getAllTodos_miss)
  show "fst (getAllTodos e s) =
        (if mongo_err e then (None, Some ErrStore)
         else (Some (sort_createdAt_desc (Collection s)), None))"
    by (simp add: m getAllTodos_store_result)
  show "status (fst (serve GET_todos e r s)) = (if mongo_err e then 500 else 200)"
    by (simp add: listTodos_status m getAllTodos_store_result)
next
  assume "redis_get_err e"
  then show "case fst (FindOne e s (fst (ObjectIDFromHex (URLParam_id r)))) of
         Some d \<Rightarrow> status (fst (serve GET_todo e r s)) = 200 \<and>
                   body (fst (serve GET_todo e r s)) = [Raw (JSON_todo d), Text [CHR 0x0A]]
       | None \<Rightarrow> status (fst (serve GET_todo e r s)) = 404"
    by (auto simp: serve_def getTodo_def Redis_Get_def FindOne_def Encode_todo_def
        json_Marshal_todo_def rw_defs Let_def split: option.splits)
next
  fix v
  assume "\<not> redis_get_err e" and "Redis s (''todo:'' @ URLParam_id r) = Some v"
  then show "status (fst (serve GET_todo e r s)) = 200"
    and "body (fst (serve GET_todo e r s)) = [Raw v]"
    by (auto simp: serve_def getTodo_def Redis_Get_def rw_defs Let_def)
qed

theorem cache_failure_falls_back_witness:
  "fst (getAllTodos (ex_env\<lparr>redis_get_err := True\<rparr>) ex_state) = (Some [ex_todo], None) \<and>
   status (fst (serve GET_todos (ex_env\<lparr>redis_get_err := True\<rparr>) (ex_req ''GET'' []) ex_state)) = 200 \<and>
   status (fst (serve GET_todo (ex_env\<lparr>redis_get_err := True\<rparr>) (ex_req ''GET'' ex_id) ex_state)) = 200 \<and>
   body (fst (serve GET_todo (ex_env\<lparr>redis_get_err := True\<rparr>) (ex_req ''GET'' ex_id) ex_state)) =
     [Raw (JSON_todo ex_todo), Text [CHR 0x0A]] \<and>
   body (fst (serve GET_todo ex_env (ex_req ''GET'' ex_id) ex_corrupt_item)) = [Raw (Corrupt ''#'')]"
proof -
  let ?e = "ex_env\<lparr>redis_get_err := True\<rparr>"
  have g: "redis_get_err ?e" "\<not> mongo_err ?e" by (simp_all add: ex_env_def)
  have c: "sort_createdAt_desc (Collection ex_state) = [ex_todo]"
    by (simp add: ex_state_def sort_createdAt_desc_def)
  have f: "fst (FindOne ?e ex_state (fst (ObjectIDFromHex (URLParam_id (ex_req ''GET'' ex_id))))) =
      Some ex_todo"
    by (simp add: ex_req_def ex_id_decodes FindOne_def ex_env_def ex_state_def ex_todo_def)
  have n: "\<not> redis_get_err ex_env" by (simp add: ex_env_def)
  have v: "Redis ex_corrupt_item (''todo:'' @ URLParam_id (ex_req ''GET'' ex_id)) = Some (Corrupt ''#'')"
    by (simp add: ex_corrupt_item_def ex_req_def)
  show ?thesis
    using cache_failure_falls_back [of ?e ex_state "ex_req ''GET'' []"]
      cache_failure_falls_back [of ?e ex_state "ex_req ''GET'' ex_id"]
      cache_failure_falls_back [of ex_env ex_corrupt_item "ex_req ''GET'' ex_id"]
      g c f n v
    by simp
qed

theorem corrupt_item_counterexample:
  "json_Unmarshal_todo (Corrupt ''#'') = None \<and>
   Redis_Get ex_env ex_corrupt_item (''todo:'' @ URLParam_id (ex_req ''GET'' ex_id)) = Some (Corrupt ''#'') \<and>
   status (fst (serve GET_todo ex_env (ex_req ''GET'' ex_id) ex_corrupt_item)) = 200 \<and>
   body (fst (serve GET_todo ex_env (ex_req ''GET'' ex_id) ex_corrupt_item)) = [Raw (Corrupt ''#'')] \<and>
   fst (FindOne ex_env ex_corrupt_item (fst (ObjectIDFromHex (URLParam_id (ex_req ''GET'' ex_id))))) = Some ex_todo \<and>
   body (fst (serve GET_todo ex_env (ex_req ''GET'' ex_id) ex_corrupt_item)) \<noteq>
     [Raw (JSON_todo ex_todo), Text [CHR 0x0A]]"
  by (simp add: serve_def getTodo_def ex_corrupt_item_def ex_defs store_defs cache_defs hex_defs
      rw_defs Let_def)

section \<open>Updating an item\<close>

lemma update_first_frame:
  "list_all2 (\<lambda>d d'. ID d' = ID d \<and> CreatedAt d' = CreatedAt d \<and>
      (Title d' = Title d \<or> upd_Title u = Some (Title d')) \<and>
      (Completed d' = Completed d \<or> upd_Completed u = Some (Completed d')) \<and>
      (ID d \<noteq> oid \<longrightarrow> d' = d))
    ds (update_first oid u ds)"
proof (induction ds)
  case Nil
  then show ?case by simp
next
  case (Cons d ds)
  have refl: "list_all2 (\<lambda>d d'. ID d' = ID d \<and> CreatedAt d' = CreatedAt d \<and>
      (Title d' = Title d \<or> upd_Title u = Some (Title d')) \<and>
      (Completed d' = Completed d \<or> upd_Completed u = Some (Completed d')) \<and>
      (ID d \<noteq> oid \<longrightarrow> d' = d)) ds ds"
    by (simp add: list_all2_same)
  show ?case
  proof (cases "ID d = oid")
    case True
    then show ?thesis using refl by (auto simp: apply_set_def split: option.splits)
  next
    case False
    then show ?thesis using Cons.IH by simp
  qed
qed

text \<open>
  C9. A \<^verbatim>\<open>PUT /todos/{id}\<close> answered with status 200 had a well-formed identifier and a
  readable body, and the collection after it matches the collection before it item by
  item: every item keeps its identifier and its creation timestamp; a title or a
  completion flag that differs from before is the one the request carries, so a field
  absent from the request is unchanged; and an item with another identifier is
  unchanged altogether.
\<close>

theorem updateTodo_frame:
  assumes "serve PUT_todo e r s = (w, s')" and "status w = 200"
  shows "\<exists>u oid. Decode_update r = Some u \<and> ObjectIDFromHex (URLParam_id r) = (oid, None) \<and>
     list_all2 (\<lambda>d d'. ID d' = ID d \<and> CreatedAt d' = CreatedAt d \<and>
        (Title d' = Title d \<or> upd_Title u = Some (Title d')) \<and>
        (Completed d' = Completed d \<or> upd_Completed u = Some (Completed d')) \<and>
        (ID d \<noteq> oid \<longrightarrow> d' = d))
      (Collection s) (Collection s')"
proof -
  obtain oid er where o: "ObjectIDFromHex (URLParam_id r) = (oid, er)"
    by (cases "ObjectIDFromHex (URLParam_id r)")
  have er: "er = None"
    using assms o by (cases er) (auto simp: serve_def updateTodo_def rw_defs)
  obtain u where u: "Decode_update r = Some u"
    using assms o er by (cases "Decode_update r") (auto simp: serve_def updateTodo_def rw_defs)
  have "Collection s' = update_first oid u (Collection s)"
    using assms o er u
    by (auto simp: serve_def updateTodo_def UpdateOne_def Redis_Del_def rw_defs Let_def
        split: if_splits)
  then show ?thesis using o er u update_first_frame [of u oid "Collection s"] by simp
qed

theorem updateTodo_frame_witness:
  "status (fst (serve PUT_todo ex_env ex_set_completed ex_store_only)) = 200 \<and>
   map Completed (Collection (snd (serve PUT_todo ex_env ex_set_completed ex_store_only))) = [True] \<and>
   (\<exists>u oid. Decode_update ex_set_completed = Some u \<and>
      ObjectIDFromHex (URLParam_id ex_set_completed) = (oid, None) \<and>
      list_all2 (\<lambda>d d'. ID d' = ID d \<and> CreatedAt d' = CreatedAt d \<and>
          (Title d' = Title d \<or> upd_Title u = Some (Title d')) \<and>
          (Completed d' = Completed d \<or> upd_Completed u = Some (Completed d')) \<and>
          (ID d \<noteq> oid \<longrightarrow> d' = d))
        (Collection ex_store_only)
        (Collection (snd (serve PUT_todo ex_env ex_set_completed ex_store_only))))"
proof -
  have h1: "serve PUT_todo ex_env ex_set_completed ex_store_only =
      (fst (serve PUT_todo ex_env ex_set_completed ex_store_only),
       snd (serve PUT_todo ex_env ex_set_completed ex_store_only))"
    by simp
  have h2: "status (fst (serve PUT_todo ex_env ex_set_completed ex_store_only)) = 200"
    by (simp add: serve_def updateTodo_def ex_defs store_defs cache_defs hex_defs rw_defs Let_def)
  have h3: "map Completed (Collection (snd (serve PUT_todo ex_env ex_set_completed ex_store_only))) = [True]"
    by (simp add: serve_def updateTodo_def ex_defs store_defs cache_defs hex_defs rw_defs Let_def)
  show ?thesis using updateTodo_frame [OF h1 h2] h2 h3 by blast
qed

section \<open>Listing from the store\<close>

lemma sorted_sort_createdAt_desc:
  "sorted_wrt (\<lambda>a b. CreatedAt b \<le> CreatedAt a) (sort_createdAt_desc ds)"
proof -
  have "sorted (map CreatedAt (sort_key CreatedAt ds))" by (rule sorted_sort_key)
  then have "sorted_wrt (\<lambda>a b. CreatedAt a \<le> CreatedAt b) (sort_key CreatedAt ds)"
    by (simp add: sorted_map)
  then show ?thesis by (simp add: sort_createdAt_desc_def sorted_wrt_rev)
qed

lemma mset_sort_createdAt_desc: "mset (sort_createdAt_desc ds) = mset ds"
  by (simp add: sort_createdAt_desc_def)

lemma getAllTodos_store_full:
  "\<not> mongo_err e \<Longrightarrow> getAllTodos_store e s =
     ((Some (sort_createdAt_desc (Collection s)), None),
      Redis_Set e ''todos:all'' (JSON_todos (Some (sort_createdAt_desc (Collection s)))) s)"
  by (simp add: getAllTodos_store_def Find_All_def json_Marshal_todos_def Let_def)

text \<open>
  C10. A list read that is served from the store (the cache lookup fails, misses or
  returns a value that does not deserialize, and the store answers) returns the items
  of the collection ordered by creation timestamp, newest first; it returns the empty
  list, never \<^verbatim>\<open>nil\<close>, when the collection is empty, so \<^verbatim>\<open>GET /todos\<close> writes an array
  and never \<^verbatim>\<open>null\<close>; \<^verbatim>\<open>GET /\<close> renders the same list. When the cache takes the write,
  the entry \<^verbatim>\<open>todos:all\<close> holds that list, and a read served from it returns the same
  list.
\<close>

theorem list_from_store_sorted:
  assumes miss: "redis_get_err e \<or> Redis s ''todos:all'' = None \<or>
       (\<exists>v. Redis s ''todos:all'' = Some v \<and> snd (json_Unmarshal_todos v) \<noteq> None)"
    and ok: "\<not> mongo_err e"
  shows "\<exists>ts. fst (getAllTodos e s) = (Some ts, None) \<and>
     sorted_wrt (\<lambda>a b. CreatedAt b \<le> CreatedAt a) ts \<and>
     mset ts = mset (Collection s) \<and>
     (Collection s = [] \<longrightarrow> ts = []) \<and>
     body (fst (serve GET_todos e r s)) = [Raw (JSON_todos (Some ts)), Text [CHR 0x0A]] \<and>
     body (fst (serve GET_home e r s)) = [Page (Some ts)] \<and>
     (\<not> redis_set_err e \<longrightarrow>
        Redis (snd (getAllTodos e s)) ''todos:all'' = Some (JSON_todos (Some ts)) \<and>
        (\<forall>e'. \<not> redis_get_err e' \<longrightarrow>
           fst (getAllTodos e' (snd (getAllTodos e s))) = (Some ts, None)))"
proof -
  let ?ts = "sort_createdAt_desc (Collection s)"
  let ?s' = "Redis_Set e ''todos:all'' (JSON_todos (Some ?ts)) s"
  have g: "getAllTodos e s = ((Some ?ts, None), ?s')"
    using getAllTodos_miss [of e s] miss getAllTodos_store_full [OF ok, of s] by simp
  have l: "body (fst (serve GET_todos e r s)) = [Raw (JSON_todos (Some ?ts)), Text [CHR 0x0A]]"
    unfolding serve_def setupRoutes.simps listTodos_def
    by (simp add: g Encode_todos_def json_Marshal_todos_def rw_defs)
  have h: "body (fst (serve GET_home e r s)) = [Page (Some ?ts)]"
    unfolding serve_def setupRoutes.simps handleHome_def
    by (simp add: g rw_defs)
  have c: "Redis ?s' ''todos:all'' = Some (JSON_todos (Some ?ts)) \<and>
        (\<forall>e'. \<not> redis_get_err e' \<longrightarrow> fst (getAllTodos e' ?s') = (Some ?ts, None))"
    if "\<not> redis_set_err e"
    using that by (simp add: Redis_Set_def getAllTodos_def Redis_Get_def)
  have e: "Collection s = [] \<longrightarrow> ?ts = []" by simp
  show ?thesis
    using g l h c e sorted_sort_createdAt_desc [of "Collection s"]
      mset_sort_createdAt_desc [of "Collection s"]
    by (intro exI [of _ ?ts]) simp
qed

theorem list_from_store_sorted_witness:
  "fst (getAllTodos ex_env ex_two_items) = (Some [ex_todo, ex_older], None) \<and>
   body (fst (serve GET_todos ex_env (ex_req ''GET'' []) ex_two_items)) =
     [Raw (JSON_todos (Some [ex_todo, ex_older])), Text [CHR 0x0A]] \<and>
   fst (getAllTodos ex_env (snd (getAllTodos ex_env ex_two_items))) = (Some [ex_todo, ex_older], None) \<and>
   fst (getAllTodos ex_env empty_state) = (Some [], None) \<and>
   body (fst (serve GET_todos ex_env (ex_req ''GET'' []) empty_state)) =
     [Raw (JSON_todos (Some [])), Text [CHR 0x0A]] \<and>
   Redis (snd (getAllTodos ex_env empty_state)) ''todos:all'' = Some (JSON_todos (Some []))"
proof -
  have m1: "redis_get_err ex_env \<or> Redis ex_two_items ''todos:all'' = None \<or>
       (\<exists>v. Redis ex_two_items ''todos:all'' = Some v \<and> snd (json_Unmarshal_todos v) \<noteq> None)"
    by (simp add: ex_two_items_def)
  have m2: "redis_get_err ex_env \<or> Redis empty_state ''todos:all'' = None \<or>
       (\<exists>v. Redis empty_state ''todos:all'' = Some v \<and> snd (json_Unmarshal_todos v) \<noteq> None)"
    by (simp add: empty_state_def)
  have ok: "\<not> mongo_err ex_env" and st: "\<not> redis_set_err ex_env" and gt: "\<not> redis_get_err ex_env"
    by (simp_all add: ex_env_def)
  have v1: "fst (getAllTodos ex_env ex_two_items) = (Some [ex_todo, ex_older], None)"
    by (simp add: getAllTodos_def getAllTodos_store_def Find_All_def Redis_Get_def ex_env_def
        ex_two_items_def sort_createdAt_desc_def ex_todo_def ex_older_def Let_def)
  have v2: "fst (getAllTodos ex_env empty_state) = (Some [], None)"
    by (simp add: getAllTodos_def getAllTodos_store_def Find_All_def Redis_Get_def ex_env_def
        empty_state_def Let_def)
  from list_from_store_sorted [OF m1 ok, of "ex_req ''GET'' []"] v1 st gt
  have a: "body (fst (serve GET_todos ex_env (ex_req ''GET'' []) ex_two_items)) =
       [Raw (JSON_todos (Some [ex_todo, ex_older])), Text [CHR 0x0A]] \<and>
     fst (getAllTodos ex_env (snd (getAllTodos ex_env ex_two_items))) = (Some [ex_todo, ex_older], None)"
    by auto
  from list_from_store_sorted [OF m2 ok, of "ex_req ''GET'' []"] v2 st
  have b: "body (fst (serve GET_todos ex_env (ex_req ''GET'' []) empty_state)) =
       [Raw (JSON_todos (Some [])), Text [CHR 0x0A]] \<and>
     Redis (snd (getAllTodos ex_env empty_state)) ''todos:all'' = Some (JSON_todos (Some []))"
    by auto
  show ?thesis using v1 v2 a b by simp
qed

end
